theory Spec2Isabelle
  imports Main "HOL-Library.Word" "HOL-Library.AList"
begin

section \<open>JavaScript strings\<close>

text \<open>
  A JavaScript string is a sequence of UTF-16 code units: \<open>length\<close> counts code units and
  \<open>trim\<close> works on code units. ASCII literals of the source are written with \<open>lit\<close>;
  the emoji of \<^verbatim>\<open>src/server.ts\<close> are given by their code units.
\<close>

type_synonym jsstring = "16 word list"

definition lit :: "string \<Rightarrow> jsstring" where
  "lit s = map of_char s"

text \<open>
  \<^verbatim>\<open>String.prototype.trim\<close> removes WhiteSpace and LineTerminator code points from both
  ends (ECMAScript: TAB, LF, VT, FF, CR, SP, NBSP, U+1680, U+2000..U+200A, U+2028, U+2029,
  U+202F, U+205F, U+3000, U+FEFF).
\<close>

definition is_white :: "16 word \<Rightarrow> bool" where
  "is_white c \<longleftrightarrow>
     c \<in> set [0x09, 0x0A, 0x0B, 0x0C, 0x0D, 0x20, 0xA0, 0x1680, 0x2000, 0x2001, 0x2002,
              0x2003, 0x2004, 0x2005, 0x2006, 0x2007, 0x2008, 0x2009, 0x200A, 0x2028,
              0x2029, 0x202F, 0x205F, 0x3000, 0xFEFF]"

definition trim :: "jsstring \<Rightarrow> jsstring" where
  "trim s = rev (dropWhile is_white (rev (dropWhile is_white s)))"

text \<open>\<^verbatim>\<open>String(n)\<close> for a non-negative integer, as a template literal prints a length.\<close>

function show_nat :: "nat \<Rightarrow> jsstring" where
  "show_nat n =
     (if n < 10 then [of_nat (48 + n)]
      else show_nat (n div 10) @ [of_nat (48 + n mod 10)])"
  by pat_completeness auto
termination
  by (relation "measure id") auto

declare show_nat.simps [simp del]

text \<open>\<^verbatim>\<open>path.split("/")\<close>, \<^verbatim>\<open>.slice(0, -1)\<close> (which is \<open>butlast\<close>) and \<^verbatim>\<open>.join("/")\<close>.\<close>

fun split_slash :: "jsstring \<Rightarrow> jsstring list" where
  "split_slash [] = [[]]"
| "split_slash (c # cs) =
     (if c = 0x2F then [] # split_slash cs
      else (case split_slash cs of
              [] \<Rightarrow> [[c]]
            | x # xs \<Rightarrow> (c # x) # xs))"

fun join_with :: "jsstring \<Rightarrow> jsstring list \<Rightarrow> jsstring" where
  "join_with sep [] = []"
| "join_with sep [x] = x"
| "join_with sep (x # y # ys) = x @ sep @ join_with sep (y # ys)"

text \<open>
  \<^verbatim>\<open>const parentDir = path.split("/").slice(0, -1).join("/") || ".";\<close>
  (the empty string is falsy).
\<close>

definition parentDir :: "jsstring \<Rightarrow> jsstring" where
  "parentDir path =
     (let d = join_with (lit ''/'') (butlast (split_slash path))
      in if d = [] then lit ''.'' else d)"

section \<open>The file system the handlers act on\<close>

text \<open>
  The handlers call \<^verbatim>\<open>fs/promises\<close>. The disk is an association list from path text to
  node, in creation order; every primitive appends itself to the list of calls made, so that
  "no file system operation" is a statement about that list. The model is the idealised
  disk: a path names the node stored under exactly that text (two texts that the operating
  system would resolve to one file are not identified), the directory of a path is the text
  before its last \<open>/\<close> (\<open>.\<close> when that text is empty, as \<^verbatim>\<open>parentDir\<close> in
  \<^verbatim>\<open>createFile\<close> has it), and an operation fails only for what the disk holds (no
  permissions, no quota). A file's content is kept as the string that reading it as UTF-8
  gives.
\<close>

datatype node = File jsstring | Dir

datatype fs_call =
    Access jsstring
  | Stat jsstring
  | ReadFile jsstring
  | WriteFile jsstring jsstring
  | AppendFile jsstring jsstring
  | Unlink jsstring
  | Readdir jsstring

datatype errno = ENOENT | EISDIR | ENOTDIR

record fs_error =
  code :: errno
  message :: jsstring

record world =
  disk :: "(jsstring \<times> node) list"
  calls :: "fs_call list"

definition describe_errno :: "errno \<Rightarrow> jsstring" where
  "describe_errno e =
     (case e of
        ENOENT \<Rightarrow> lit ''ENOENT: no such file or directory''
      | EISDIR \<Rightarrow> lit ''EISDIR: illegal operation on a directory''
      | ENOTDIR \<Rightarrow> lit ''ENOTDIR: not a directory'')"

definition mk_error :: "errno \<Rightarrow> string \<Rightarrow> jsstring \<Rightarrow> fs_error" where
  "mk_error e syscall p =
     \<lparr>code = e,
      message = describe_errno e @ lit '', '' @ lit syscall @ lit '' '' @ [0x27] @ p @ [0x27]\<rparr>"

definition logged :: "fs_call \<Rightarrow> world \<Rightarrow> world" where
  "logged c w = w\<lparr>calls := calls w @ [c]\<rparr>"

definition fs_access :: "world \<Rightarrow> jsstring \<Rightarrow> (fs_error + unit) \<times> world" where
  "fs_access w p =
     (case map_of (disk w) p of
        None \<Rightarrow> (Inl (mk_error ENOENT ''access'' p), logged (Access p) w)
      | Some n \<Rightarrow> (Inr (), logged (Access p) w))"

text \<open>\<^verbatim>\<open>fs.stat\<close>: the result is read only through \<^verbatim>\<open>isDirectory()\<close>.\<close>

definition fs_stat :: "world \<Rightarrow> jsstring \<Rightarrow> (fs_error + bool) \<times> world" where
  "fs_stat w p =
     (case map_of (disk w) p of
        None \<Rightarrow> (Inl (mk_error ENOENT ''stat'' p), logged (Stat p) w)
      | Some n \<Rightarrow> (Inr (n = Dir), logged (Stat p) w))"

definition fs_readFile :: "world \<Rightarrow> jsstring \<Rightarrow> (fs_error + jsstring) \<times> world" where
  "fs_readFile w p =
     (case map_of (disk w) p of
        None \<Rightarrow> (Inl (mk_error ENOENT ''open'' p), logged (ReadFile p) w)
      | Some Dir \<Rightarrow>
          (Inl \<lparr>code = EISDIR, message = describe_errno EISDIR @ lit '', read''\<rparr>,
           logged (ReadFile p) w)
      | Some (File c) \<Rightarrow> (Inr c, logged (ReadFile p) w))"

text \<open>
  Opening a path for writing: an existing file is opened, a directory refuses, and a path
  that names nothing is created when its directory is a directory of the disk.
\<close>

definition open_for_write :: "world \<Rightarrow> jsstring \<Rightarrow> fs_error + jsstring" where
  "open_for_write w p =
     (case map_of (disk w) p of
        Some (File c) \<Rightarrow> Inr c
      | Some Dir \<Rightarrow> Inl (mk_error EISDIR ''open'' p)
      | None \<Rightarrow>
          (case map_of (disk w) (parentDir p) of
             Some Dir \<Rightarrow> Inr []
           | Some (File c) \<Rightarrow> Inl (mk_error ENOTDIR ''open'' p)
           | None \<Rightarrow> Inl (mk_error ENOENT ''open'' p)))"

definition fs_writeFile ::
  "world \<Rightarrow> jsstring \<Rightarrow> jsstring \<Rightarrow> (fs_error + unit) \<times> world" where
  "fs_writeFile w p c =
     (case open_for_write w p of
        Inl e \<Rightarrow> (Inl e, logged (WriteFile p c) w)
      | Inr old \<Rightarrow>
          (Inr (), logged (WriteFile p c) (w\<lparr>disk := AList.update p (File c) (disk w)\<rparr>)))"


definition fs_unlink :: "world \<Rightarrow> jsstring \<Rightarrow> (fs_error + unit) \<times> world" where
  "fs_unlink w p =
     (case map_of (disk w) p of
        None \<Rightarrow> (Inl (mk_error ENOENT ''unlink'' p), logged (Unlink p) w)
      | Some Dir \<Rightarrow> (Inl (mk_error EISDIR ''unlink'' p), logged (Unlink p) w)
      | Some (File c) \<Rightarrow>
          (Inr (), logged (Unlink p) (w\<lparr>disk := AList.delete p (disk w)\<rparr>)))"



section \<open>The tool handlers of \<^verbatim>\<open>src/server.ts\<close>\<close>

text \<open>
  A Tool Result is \<^verbatim>\<open>{ content: [{ type, text }], isError?: boolean }\<close>; a result without
  the flag is not an error. The handlers are those of \<^verbatim>\<open>src/server.ts\<close>; the second copy
  of the server among the sources has the same control flow with texts that carry no emoji.
\<close>

record content_item =
  item_type :: jsstring
  item_text :: jsstring

record tool_result =
  content :: "content_item list"
  isError :: bool

definition text_item :: "jsstring \<Rightarrow> content_item" where
  "text_item t = \<lparr>item_type = lit ''text'', item_text = t\<rparr>"

definition ok_result :: "jsstring \<Rightarrow> tool_result" where
  "ok_result t = \<lparr>content = [text_item t], isError = False\<rparr>"

definition error_result :: "jsstring \<Rightarrow> tool_result" where
  "error_result t = \<lparr>content = [text_item t], isError = True\<rparr>"

text \<open>
  \<^verbatim>\<open>!path || typeof path !== "string" || path.trim() === ""\<close>, on an argument that the
  schema lets be a string or absent.
\<close>

definition invalid_path :: "jsstring option \<Rightarrow> bool" where
  "invalid_path path =
     (case path of
        None \<Rightarrow> True
      | Some p \<Rightarrow> p = [] \<or> trim p = [])"

definition bad_path_text :: jsstring where
  "bad_path_text = [0x274C] @ lit '' '' @ [0x27] @ lit ''path'' @ [0x27]
     @ lit '' must be a non-empty string.''"


definition is_directory_text :: "jsstring \<Rightarrow> jsstring" where
  "is_directory_text p = [0x26A0, 0xFE0F] @ lit '' '' @ [0x27] @ p @ [0x27]
     @ lit '' is a directory. Use a directory-specific tool to delete folders.''"

definition deleteFile :: "world \<Rightarrow> jsstring option \<Rightarrow> tool_result \<times> world" where
  "deleteFile w path =
     (case path of
        None \<Rightarrow> (error_result bad_path_text, w)
      | Some p \<Rightarrow>
          if invalid_path path then (error_result bad_path_text, w)
          else
            (let catch = (\<lambda>err.
                   if code err = ENOENT
                   then error_result ([0x274C] @ lit '' File not found at '' @ p @ lit ''.'')
                   else error_result ([0x274C] @ lit '' Failed to delete file: ''
                          @ message err))
             in case fs_stat w p of
                  (Inl err, w1) \<Rightarrow> (catch err, w1)
                | (Inr isDirectory, w1) \<Rightarrow>
                    if isDirectory
                    then (error_result (is_directory_text p), w1)
                    else
                      (case fs_unlink w1 p of
                         (Inl err, w2) \<Rightarrow> (catch err, w2)
                       | (Inr u, w2) \<Rightarrow>
                           (ok_result ([0xD83D, 0xDDD1, 0xFE0F]
                              @ lit '' File successfully deleted: '' @ p), w2))))"

definition content_text :: "jsstring \<Rightarrow> jsstring \<Rightarrow> jsstring" where
  "content_text p fileContent = [0xD83D, 0xDCC4] @ lit '' Content of '' @ p @ lit '':''
     @ [0x0A, 0x0A, 0x60, 0x60, 0x60] @ lit '' is '' @ [0x0A] @ fileContent
     @ [0x0A, 0x60, 0x60, 0x60]"

definition readFile :: "world \<Rightarrow> jsstring option \<Rightarrow> tool_result \<times> world" where
  "readFile w path =
     (case path of
        None \<Rightarrow> (error_result bad_path_text, w)
      | Some p \<Rightarrow>
          if invalid_path path then (error_result bad_path_text, w)
          else
            (case fs_readFile w p of
               (Inr fileContent, w1) \<Rightarrow>
                 (ok_result (content_text p fileContent), w1)
             | (Inl err, w1) \<Rightarrow>
                 if code err = ENOENT
                 then (error_result ([0x274C] @ lit '' File not found at '' @ p @ lit ''.''), w1)
                 else (error_result ([0x274C] @ lit '' Error reading file: '' @ message err),
                       w1)))"



text \<open>
  \<^verbatim>\<open>typeof content === "string" && content.trim() ? content : "..."\<close>: the content
  argument is optional in the schema.
\<close>

definition default_content :: jsstring where
  "default_content = [0xD83D, 0xDCC4] @ lit '' Default file content generated by the MCP tool.''"

definition finalContent :: "jsstring option \<Rightarrow> jsstring" where
  "finalContent content' =
     (case content' of
        None \<Rightarrow> default_content
      | Some c \<Rightarrow> if trim c \<noteq> [] then c else default_content)"

definition already_exists_text :: "jsstring \<Rightarrow> jsstring" where
  "already_exists_text p = [0x26A0, 0xFE0F] @ lit '' A file already exists at '' @ p
     @ lit ''. File creation aborted to prevent overwrite.''"

definition parent_missing_text :: "jsstring \<Rightarrow> jsstring" where
  "parent_missing_text d = [0x274C] @ lit '' Parent directory '' @ [0x22] @ d @ [0x22]
     @ lit '' does not exist.''"

definition created_text :: "jsstring \<Rightarrow> nat \<Rightarrow> jsstring" where
  "created_text p n = [0x2705] @ lit '' File created at '' @ p @ lit '' with ''
     @ show_nat n @ lit '' characters.''"

definition createFile ::
  "world \<Rightarrow> jsstring option \<Rightarrow> jsstring option \<Rightarrow> tool_result \<times> world" where
  "createFile w path content' =
     (case path of
        None \<Rightarrow> (error_result bad_path_text, w)
      | Some p \<Rightarrow>
          if invalid_path path then (error_result bad_path_text, w)
          else
            (case fs_access w p of
               (Inr u, w1) \<Rightarrow>
                 (error_result (already_exists_text p), w1)
             | (Inl e, w1) \<Rightarrow>
                 (case fs_access w1 (parentDir p) of
                    (Inl e', w2) \<Rightarrow>
                      (error_result (parent_missing_text (parentDir p)), w2)
                  | (Inr u, w2) \<Rightarrow>
                      (case fs_writeFile w2 p (finalContent content') of
                         (Inr u', w3) \<Rightarrow>
                           (ok_result (created_text p (length (finalContent content'))), w3)
                       | (Inl err, w3) \<Rightarrow>
                           (error_result ([0x274C]
                              @ lit '' Unexpected error while creating file: ''
                              @ message err), w3)))))"



section \<open>The session table and the \<^verbatim>\<open>/mcp\<close> endpoint\<close>

text \<open>
  \<^verbatim>\<open>const transports: Record<string, StreamableHTTPServerTransport> = {}\<close> is a plain
  object: \<^verbatim>\<open>transports[sessionId]\<close> reads an own property, and otherwise what the object
  inherits from \<^verbatim>\<open>Object.prototype\<close>, whose properties are functions (or, for
  \<^verbatim>\<open>__proto__\<close>, the prototype object) and so truthy. Objects are told apart by the
  number under which they were created; a transport remembers the \<^verbatim>\<open>McpServer\<close> that
  \<^verbatim>\<open>mcp.connect(transport)\<close> bound to it.
\<close>

record transport =
  transport_ref :: nat
  mcp_ref :: nat

record host =
  transports :: "jsstring \<rightharpoonup> transport"
  allocated :: nat
  uuids :: nat

datatype property = Own transport | Inherited | Undefined

definition object_prototype_keys :: "jsstring list" where
  "object_prototype_keys =
     map lit [''constructor'', ''__defineGetter__'', ''__defineSetter__'', ''hasOwnProperty'',
              ''__lookupGetter__'', ''__lookupSetter__'', ''isPrototypeOf'',
              ''propertyIsEnumerable'', ''toString'', ''valueOf'', ''__proto__'',
              ''toLocaleString'']"

definition get_property :: "(jsstring \<rightharpoonup> transport) \<Rightarrow> jsstring \<Rightarrow> property" where
  "get_property table k =
     (case table k of
        Some t \<Rightarrow> Own t
      | None \<Rightarrow> if k \<in> set object_prototype_keys then Inherited else Undefined)"

datatype js_error = TypeError

text \<open>
  \<^verbatim>\<open>transport.handleRequest(req, res, req.body)\<close> belongs to the SDK. What the endpoint's
  own code depends on is whether the transport, while handling the request, calls
  \<^verbatim>\<open>onsessioninitialized(sid)\<close> with the identifier that \<^verbatim>\<open>sessionIdGenerator\<close> returned:
  that is the parameter \<open>initializes\<close>. \<open>randomUUID k\<close> is the result of the k-th call of
  \<^verbatim>\<open>randomUUID()\<close>. The callback of a transport stores that transport:
  \<^verbatim>\<open>transports[sid] = transport\<close>, an own property of the table (a UUID is never
  \<^verbatim>\<open>__proto__\<close>).
\<close>

definition handleRequest ::
  "(nat \<Rightarrow> jsstring) \<Rightarrow> (host \<Rightarrow> transport \<Rightarrow> 'req \<Rightarrow> bool) \<Rightarrow> host \<Rightarrow> transport \<Rightarrow> 'req \<Rightarrow> host"
  where
  "handleRequest randomUUID initializes h t req =
     (if initializes h t req
      then h\<lparr>transports := (transports h)(randomUUID (uuids h) \<mapsto> t),
             uuids := Suc (uuids h)\<rparr>
      else h)"

text \<open>
  \<^verbatim>\<open>app.post("/mcp", ...)\<close>: the result is the transport that handled the request and the
  host afterwards, or the exception of calling \<^verbatim>\<open>handleRequest\<close> on a value that has no
  such method.
\<close>

definition post_mcp ::
  "(nat \<Rightarrow> jsstring) \<Rightarrow> (host \<Rightarrow> transport \<Rightarrow> 'req \<Rightarrow> bool) \<Rightarrow> host \<Rightarrow> jsstring option \<Rightarrow> 'req
     \<Rightarrow> js_error + transport \<times> host"
  where
  "post_mcp randomUUID initializes h sessionId req =
     (case (case sessionId of
              None \<Rightarrow> Undefined
            | Some sid \<Rightarrow> if sid = [] then Undefined else get_property (transports h) sid) of
        Own t \<Rightarrow> Inr (t, handleRequest randomUUID initializes h t req)
      | Inherited \<Rightarrow> Inl TypeError
      | Undefined \<Rightarrow>
          (let mcp = allocated h;
               t = \<lparr>transport_ref = Suc (allocated h), mcp_ref = mcp\<rparr>;
               h1 = h\<lparr>allocated := Suc (Suc (allocated h))\<rparr>
           in Inr (t, handleRequest randomUUID initializes h1 t req)))"

text \<open>Every object the table holds was created earlier.\<close>

definition host_ok :: "host \<Rightarrow> bool" where
  "host_ok h \<longleftrightarrow>
     (\<forall>t \<in> ran (transports h). transport_ref t < allocated h \<and> mcp_ref t < allocated h)"

section \<open>The driver of \<^verbatim>\<open>src/client.ts\<close>\<close>

text \<open>
  A message of the transcript (\<^verbatim>\<open>ChatCompletionMessageParam\<close>) and a tool-call request
  (\<^verbatim>\<open>{ id?, function: { name, arguments } }\<close>). The arguments are passed on untouched, so
  their type is left open.
\<close>

datatype role = User | Assistant | Tool

record 'a tool_call =
  tc_id :: "jsstring option"
  fn_name :: jsstring
  fn_arguments :: 'a

record 'a chat_message =
  role :: role
  m_content :: "jsstring option"
  tool_calls :: "'a tool_call list option"
  tool_call_id :: "jsstring option"

text \<open>
  \<^verbatim>\<open>callLLM\<close>: the endpoint is the parameter \<open>llm\<close>; it may fail (the promise rejects) or
  answer with or without \<^verbatim>\<open>data.message\<close>.
\<close>

definition no_message :: "'a chat_message" where
  "no_message =
     \<lparr>role = Assistant, m_content = Some ([0x26A0, 0xFE0F] @ lit '' No message received.''),
      tool_calls = None, tool_call_id = None\<rparr>"

definition callLLM ::
  "('a chat_message list \<Rightarrow> 't \<Rightarrow> 'e + 'a chat_message option) \<Rightarrow> 'a chat_message list \<Rightarrow> 't
     \<Rightarrow> 'e + 'a chat_message"
  where
  "callLLM llm messages tools =
     (case llm messages tools of
        Inl e \<Rightarrow> Inl e
      | Inr None \<Rightarrow> Inr no_message
      | Inr (Some m) \<Rightarrow> Inr m)"

text \<open>\<^verbatim>\<open>if (item.type === "text") toolOutput += item.text\<close> over the content of a result.\<close>

definition toolOutput :: "content_item list \<Rightarrow> jsstring" where
  "toolOutput items =
     foldl (\<lambda>out item. if item_type item = lit ''text'' then out @ item_text item else out)
       [] items"

text \<open>\<^verbatim>\<open>tool_call_id: toolCall.id ?? toolCall.function.name\<close>.\<close>

definition tool_message :: "'a tool_call \<Rightarrow> jsstring \<Rightarrow> 'a chat_message" where
  "tool_message toolCall out =
     \<lparr>role = Tool, m_content = Some out, tool_calls = None,
      tool_call_id = Some (case tc_id toolCall of None \<Rightarrow> fn_name toolCall | Some i \<Rightarrow> i)\<rparr>"

text \<open>
  The \<^verbatim>\<open>for (const toolCall of toolCalls)\<close> loop. \<^verbatim>\<open>client.callTool\<close> is the parameter
  \<open>callTool\<close>, acting on the state \<open>s\<close> of the toolhost; a rejected promise (\<open>Inl\<close>) is not
  caught by the loop and ends it.
\<close>

fun run_tool_calls ::
  "('s \<Rightarrow> jsstring \<Rightarrow> 'a \<Rightarrow> ('e + tool_result) \<times> 's) \<Rightarrow> 's \<Rightarrow> 'a chat_message list
     \<Rightarrow> 'a tool_call list \<Rightarrow> ('e + 'a chat_message list) \<times> 's"
  where
  "run_tool_calls callTool s messages [] = (Inr messages, s)"
| "run_tool_calls callTool s messages (toolCall # rest) =
     (case callTool s (fn_name toolCall) (fn_arguments toolCall) of
        (Inl e, s') \<Rightarrow> (Inl e, s')
      | (Inr toolResponse, s') \<Rightarrow>
          run_tool_calls callTool s'
            (messages @ [tool_message toolCall (toolOutput (content toolResponse))]) rest)"

text \<open>
  One pass through the body of \<^verbatim>\<open>while (true)\<close> in \<^verbatim>\<open>main\<close>, for a line of input that is
  not the exit word: the transcript afterwards and the state of the toolhost.
\<close>

text \<open>The two messages that \<^verbatim>\<open>main\<close> pushes before it runs a batch.\<close>

definition user_message :: "jsstring \<Rightarrow> 'a chat_message" where
  "user_message userInput =
     \<lparr>role = User, m_content = Some userInput, tool_calls = None, tool_call_id = None\<rparr>"

definition calls_message :: "'a tool_call list \<Rightarrow> 'a chat_message" where
  "calls_message toolCalls =
     \<lparr>role = Assistant, m_content = Some [], tool_calls = Some toolCalls, tool_call_id = None\<rparr>"

definition assistant_message :: "jsstring option \<Rightarrow> 'a chat_message" where
  "assistant_message c = \<lparr>role = Assistant, m_content = c, tool_calls = None, tool_call_id = None\<rparr>"

definition turn ::
  "('a chat_message list \<Rightarrow> 't \<Rightarrow> 'e + 'a chat_message option) \<Rightarrow> 't
     \<Rightarrow> ('s \<Rightarrow> jsstring \<Rightarrow> 'a \<Rightarrow> ('e + tool_result) \<times> 's) \<Rightarrow> 's \<Rightarrow> 'a chat_message list \<Rightarrow> jsstring
     \<Rightarrow> ('e + 'a chat_message list) \<times> 's"
  where
  "turn llm tools callTool s messages userInput =
     (let messages1 = messages @ [user_message userInput]
      in case callLLM llm messages1 tools of
           Inl e \<Rightarrow> (Inl e, s)
         | Inr resp \<Rightarrow>
             (case tool_calls resp of
                None \<Rightarrow> (Inr (messages1 @ [assistant_message (m_content resp)]), s)
              | Some toolCalls \<Rightarrow>
                  if toolCalls = []
                  then (Inr (messages1 @ [assistant_message (m_content resp)]), s)
                  else
                    (let messages2 = messages1 @ [calls_message toolCalls]
                     in case run_tool_calls callTool s messages2 toolCalls of
                          (Inl e, s') \<Rightarrow> (Inl e, s')
                        | (Inr messages3, s') \<Rightarrow>
                            (case callLLM llm messages3 tools of
                               Inl e \<Rightarrow> (Inl e, s')
                             | Inr finalResponse \<Rightarrow>
                                 (Inr (messages3 @ [assistant_message (m_content finalResponse)]),
                                  s')))))"

text \<open>
  What the toolhost answers to the calls of a batch when each is made in turn, whatever the
  answers are. It is used to say that no call of a batch was rejected.
\<close>

fun outcomes ::
  "('s \<Rightarrow> jsstring \<Rightarrow> 'a \<Rightarrow> ('e + tool_result) \<times> 's) \<Rightarrow> 's \<Rightarrow> 'a tool_call list
     \<Rightarrow> ('e + tool_result) list"
  where
  "outcomes callTool s [] = []"
| "outcomes callTool s (toolCall # rest) =
     (case callTool s (fn_name toolCall) (fn_arguments toolCall) of
        (r, s') \<Rightarrow> r # outcomes callTool s' rest)"

text \<open>The state in which those calls, each made in turn, leave the toolhost.\<close>

fun state_after ::
  "('s \<Rightarrow> jsstring \<Rightarrow> 'a \<Rightarrow> ('e + tool_result) \<times> 's) \<Rightarrow> 's \<Rightarrow> 'a tool_call list \<Rightarrow> 's"
  where
  "state_after callTool s [] = s"
| "state_after callTool s (toolCall # rest) =
     (case callTool s (fn_name toolCall) (fn_arguments toolCall) of
        (r, s') \<Rightarrow> state_after callTool s' rest)"

section \<open>Properties of the tool handlers\<close>

text \<open>What the primitives and the handlers do in each case of the disk.\<close>

lemma disk_logged [simp]: "disk (logged c w) = disk w"
  by (simp add: logged_def)

lemma calls_logged [simp]: "calls (logged c w) = calls w @ [c]"
  by (simp add: logged_def)

lemma isError_results [simp]: "isError (error_result t)" "\<not> isError (ok_result t)"
  by (simp_all add: error_result_def ok_result_def)

lemma fs_access_eq:
  "fs_access w p =
     (if map_of (disk w) p = None then Inl (mk_error ENOENT ''access'' p) else Inr (),
      logged (Access p) w)"
  by (simp add: fs_access_def split: option.splits)

lemma fs_writeFile_disk:
  "fs_writeFile w p c = (Inl e, w') \<Longrightarrow> disk w' = disk w"
  by (auto simp: fs_writeFile_def split: sum.splits)

lemma invalid_create: "invalid_path path \<Longrightarrow> createFile w path c = (error_result bad_path_text, w)"
  by (cases path) (simp_all add: createFile_def)




lemma invalid_delete: "invalid_path path \<Longrightarrow> deleteFile w path = (error_result bad_path_text, w)"
  by (cases path) (simp_all add: deleteFile_def)

lemma createFile_exists:
  assumes "map_of (disk w) p \<noteq> None" "\<not> invalid_path (Some p)"
  shows "createFile w (Some p) c = (error_result (already_exists_text p), logged (Access p) w)"
  using assms by (auto simp: createFile_def fs_access_eq)

lemma createFile_keeps_disk_on_error:
  assumes "createFile w (Some p) c = (r, w')" "isError r"
  shows "disk w' = disk w"
  using assms
  by (auto simp: createFile_def fs_access_eq split: if_splits prod.splits sum.splits
           dest: fs_writeFile_disk)

lemma createFile_no_parent:
  assumes "map_of (disk w) (parentDir p) \<noteq> Some Dir" "createFile w (Some p) c = (r, w')"
  shows "isError r"
  using assms
  by (auto simp: createFile_def fs_access_eq fs_writeFile_def open_for_write_def
           split: if_splits prod.splits sum.splits option.splits node.splits)

lemma fs_stat_eq:
  "fs_stat w p =
     (case map_of (disk w) p of None \<Rightarrow> Inl (mk_error ENOENT ''stat'' p) | Some n \<Rightarrow> Inr (n = Dir),
      logged (Stat p) w)"
  by (simp add: fs_stat_def split: option.splits)

lemma deleteFile_directory:
  assumes "map_of (disk w) p = Some Dir" "\<not> invalid_path (Some p)"
  shows "deleteFile w (Some p) = (error_result (is_directory_text p), logged (Stat p) w)"
  using assms by (simp add: deleteFile_def fs_stat_eq)

lemma createFile_success:
  assumes "\<not> invalid_path (Some p)" "map_of (disk w) p = None"
    "map_of (disk w) (parentDir p) = Some Dir"
  shows "createFile w (Some p) c =
     (ok_result (created_text p (length (finalContent c))),
      \<lparr>disk = AList.update p (File (finalContent c)) (disk w),
        calls = calls w @ [Access p, Access (parentDir p), WriteFile p (finalContent c)]\<rparr>)"
  using assms
  by (simp add: createFile_def fs_access_eq fs_writeFile_def open_for_write_def logged_def)

lemma readFile_file:
  assumes "\<not> invalid_path (Some p)" "map_of (disk w) p = Some (File c)"
  shows "readFile w (Some p) = (ok_result (content_text p c), logged (ReadFile p) w)"
  using assms by (simp add: readFile_def fs_readFile_def)

lemma createFile_ok_iff:
  assumes "createFile w path c = (r, w')" "\<not> isError r"
  shows "\<exists>p. path = Some p \<and> \<not> invalid_path (Some p) \<and> map_of (disk w) p = None
           \<and> map_of (disk w) (parentDir p) = Some Dir"
  using assms
  by (cases path)
     (auto simp: createFile_def fs_access_eq fs_writeFile_def open_for_write_def
           split: if_splits prod.splits sum.splits option.splits node.splits)

lemma finalContent_not_blank: "trim (finalContent c) \<noteq> []"
  by (cases c) (simp_all add: finalContent_def default_content_def trim_def lit_def is_white_def)


lemma trim_Nil [simp]: "trim [] = []"
  by (simp add: trim_def)





text \<open>
  C6, as amended. When something exists at the path, \<open>createFile\<close> returns an error-flagged
  result and the disk is unchanged; when the path is moreover not blank, the text is the
  "already exists" text. When the directory of the path is not a directory of the disk, the
  result is error-flagged and the disk is unchanged.
\<close>
theorem C6_create_refuses:
  assumes "createFile w (Some p) c = (r, w')"
  shows "(map_of (disk w) p \<noteq> None \<longrightarrow>
            isError r \<and> disk w' = disk w
            \<and> (\<not> invalid_path (Some p) \<longrightarrow> r = error_result (already_exists_text p)))
       \<and> (map_of (disk w) (parentDir p) \<noteq> Some Dir \<longrightarrow> isError r \<and> disk w' = disk w)"
proof -
  have exists: "isError r \<and> disk w' = disk w
      \<and> (\<not> invalid_path (Some p) \<longrightarrow> r = error_result (already_exists_text p))"
    if "map_of (disk w) p \<noteq> None"
  proof (cases "invalid_path (Some p)")
    case True
    with assms show ?thesis by (auto simp: invalid_create)
  next
    case False
    with that assms show ?thesis by (auto simp: createFile_exists)
  qed
  have no_parent: "isError r \<and> disk w' = disk w"
    if "map_of (disk w) (parentDir p) \<noteq> Some Dir"
    using that assms createFile_no_parent createFile_keeps_disk_on_error by blast
  from exists no_parent show ?thesis by blast
qed

text \<open>Witness for C6: a second create at \<open>a.txt\<close>, and a create under a directory that does not exist.\<close>

theorem C6_create_refuses_witness:
  "map_of [(lit ''.'', Dir), (lit ''a.txt'', File (lit ''x''))] (lit ''a.txt'') \<noteq> None
   \<and> \<not> invalid_path (Some (lit ''a.txt''))
   \<and> fst (createFile \<lparr>disk = [(lit ''.'', Dir), (lit ''a.txt'', File (lit ''x''))], calls = []\<rparr>
            (Some (lit ''a.txt'')) (Some (lit ''y'')))
       = error_result (already_exists_text (lit ''a.txt''))
   \<and> disk (snd (createFile \<lparr>disk = [(lit ''.'', Dir), (lit ''a.txt'', File (lit ''x''))], calls = []\<rparr>
            (Some (lit ''a.txt'')) (Some (lit ''y''))))
       = [(lit ''.'', Dir), (lit ''a.txt'', File (lit ''x''))]
   \<and> map_of [(lit ''.'', Dir), (lit ''a.txt'', File (lit ''x''))] (parentDir (lit ''d/b.txt'')) \<noteq> Some Dir
   \<and> isError (fst (createFile \<lparr>disk = [(lit ''.'', Dir), (lit ''a.txt'', File (lit ''x''))], calls = []\<rparr>
            (Some (lit ''d/b.txt'')) (Some (lit ''y''))))
   \<and> disk (snd (createFile \<lparr>disk = [(lit ''.'', Dir), (lit ''a.txt'', File (lit ''x''))], calls = []\<rparr>
            (Some (lit ''d/b.txt'')) (Some (lit ''y''))))
       = [(lit ''.'', Dir), (lit ''a.txt'', File (lit ''x''))]"
proof -
  let ?w = "\<lparr>disk = [(lit ''.'', Dir), (lit ''a.txt'', File (lit ''x''))], calls = []\<rparr>"
  have a: "map_of (disk ?w) (lit ''a.txt'') \<noteq> None"
    by (simp add: lit_def)
  have b: "\<not> invalid_path (Some (lit ''a.txt''))"
    by (simp add: invalid_path_def trim_def lit_def is_white_def)
  have c: "map_of (disk ?w) (parentDir (lit ''d/b.txt'')) \<noteq> Some Dir"
    by (simp add: parentDir_def lit_def)
  have e1: "createFile ?w (Some (lit ''a.txt'')) (Some (lit ''y''))
      = (fst (createFile ?w (Some (lit ''a.txt'')) (Some (lit ''y''))),
         snd (createFile ?w (Some (lit ''a.txt'')) (Some (lit ''y''))))"
    by simp
  have e2: "createFile ?w (Some (lit ''d/b.txt'')) (Some (lit ''y''))
      = (fst (createFile ?w (Some (lit ''d/b.txt'')) (Some (lit ''y''))),
         snd (createFile ?w (Some (lit ''d/b.txt'')) (Some (lit ''y''))))"
    by simp
  show ?thesis
    using a b c C6_create_refuses [OF e1] C6_create_refuses [OF e2] by simp
qed

text \<open>Counterexample to C6 as stated: a file whose name is one space exists, and \<open>createFile\<close> at that path answers with the text for a blank path, not with the "already exists" text.\<close>

theorem C6_counterexample:
  "map_of [(lit ''.'', Dir), (lit '' '', File (lit ''x''))] (lit '' '') = Some (File (lit ''x''))
   \<and> createFile \<lparr>disk = [(lit ''.'', Dir), (lit '' '', File (lit ''x''))], calls = []\<rparr>
        (Some (lit '' '')) (Some (lit ''y''))
       = (error_result bad_path_text,
          \<lparr>disk = [(lit ''.'', Dir), (lit '' '', File (lit ''x''))], calls = []\<rparr>)
   \<and> bad_path_text \<noteq> already_exists_text (lit '' '')"
  by (simp add: createFile_def invalid_path_def trim_def lit_def is_white_def bad_path_text_def
        already_exists_text_def)


text \<open>
  C7, as amended. When the path is a directory, \<open>deleteFile\<close> returns an error-flagged result
  and the disk is unchanged; when the path is moreover not blank, the text is the
  "is a directory" text and the only file system call is the \<open>stat\<close>.
\<close>
theorem C7_delete_directory:
  assumes "map_of (disk w) p = Some Dir" "deleteFile w (Some p) = (r, w')"
  shows "isError r \<and> disk w' = disk w
       \<and> (\<not> invalid_path (Some p) \<longrightarrow>
            r = error_result (is_directory_text p) \<and> calls w' = calls w @ [Stat p])"
proof (cases "invalid_path (Some p)")
  case True
  with assms show ?thesis by (auto simp: invalid_delete)
next
  case False
  with assms show ?thesis by (auto simp: deleteFile_directory)
qed

text \<open>Witness for C7: the directory \<open>docs\<close> with a file in it.\<close>

theorem C7_delete_directory_witness:
  "map_of [(lit ''.'', Dir), (lit ''docs'', Dir), (lit ''docs/a'', File [])] (lit ''docs'') = Some Dir
   \<and> \<not> invalid_path (Some (lit ''docs''))
   \<and> deleteFile \<lparr>disk = [(lit ''.'', Dir), (lit ''docs'', Dir), (lit ''docs/a'', File [])], calls = []\<rparr>
        (Some (lit ''docs''))
       = (error_result (is_directory_text (lit ''docs'')),
          \<lparr>disk = [(lit ''.'', Dir), (lit ''docs'', Dir), (lit ''docs/a'', File [])],
            calls = [Stat (lit ''docs'')]\<rparr>)"
proof -
  let ?w = "\<lparr>disk = [(lit ''.'', Dir), (lit ''docs'', Dir), (lit ''docs/a'', File [])], calls = []\<rparr>"
  have a: "map_of (disk ?w) (lit ''docs'') = Some Dir"
    by (simp add: lit_def)
  have b: "\<not> invalid_path (Some (lit ''docs''))"
    by (simp add: invalid_path_def trim_def lit_def is_white_def)
  have e: "deleteFile ?w (Some (lit ''docs''))
      = (fst (deleteFile ?w (Some (lit ''docs''))), snd (deleteFile ?w (Some (lit ''docs''))))"
    by simp
  have w: "snd (deleteFile ?w (Some (lit ''docs'')))
      = \<lparr>disk = disk (snd (deleteFile ?w (Some (lit ''docs'')))),
         calls = calls (snd (deleteFile ?w (Some (lit ''docs''))))\<rparr>"
    by simp
  show ?thesis
    using a b C7_delete_directory [OF a e] w
    by (metis (no_types, lifting) append_Nil prod.collapse world.select_convs(1)
        world.select_convs(2))
qed

text \<open>Counterexample to C7 as stated: a directory whose name is one space exists, and \<open>deleteFile\<close> at that path answers with the text for a blank path, not with the "is a directory" text.\<close>

theorem C7_counterexample:
  "map_of [(lit ''.'', Dir), (lit '' '', Dir)] (lit '' '') = Some Dir
   \<and> deleteFile \<lparr>disk = [(lit ''.'', Dir), (lit '' '', Dir)], calls = []\<rparr> (Some (lit '' ''))
       = (error_result bad_path_text, \<lparr>disk = [(lit ''.'', Dir), (lit '' '', Dir)], calls = []\<rparr>)
   \<and> bad_path_text \<noteq> is_directory_text (lit '' '')"
  by (simp add: deleteFile_def invalid_path_def trim_def lit_def is_white_def bad_path_text_def
        is_directory_text_def)

text \<open>
  C8, as amended. For a path that is not blank, at which nothing exists and whose directory
  exists, \<open>createFile\<close> with content \<open>hello\<close> succeeds, the file then holds exactly
  \<open>hello\<close>, reading it gives \<open>hello\<close>, and \<open>readFile\<close> returns it inside its
  "Content of" text.
\<close>
theorem C8_create_then_read:
  assumes "\<not> invalid_path (Some p)" "map_of (disk w) p = None"
    "map_of (disk w) (parentDir p) = Some Dir"
  shows "case createFile w (Some p) (Some (lit ''hello'')) of
           (r, w1) \<Rightarrow>
             \<not> isError r
             \<and> map_of (disk w1) p = Some (File (lit ''hello''))
             \<and> fst (fs_readFile w1 p) = Inr (lit ''hello'')
             \<and> fst (readFile w1 (Some p)) = ok_result (content_text p (lit ''hello''))"
proof -
  have fc: "finalContent (Some (lit ''hello'')) = lit ''hello''"
    by (simp add: finalContent_def trim_def lit_def is_white_def)
  show ?thesis
    using assms
    by (simp add: createFile_success fc update_conv' readFile_file fs_readFile_def)
qed

text \<open>Witness for C8: \<open>a.txt\<close> in the working directory.\<close>

theorem C8_create_then_read_witness:
  "\<not> invalid_path (Some (lit ''a.txt''))
   \<and> map_of [(lit ''.'', Dir)] (lit ''a.txt'') = None
   \<and> map_of [(lit ''.'', Dir)] (parentDir (lit ''a.txt'')) = Some Dir
   \<and> (case createFile \<lparr>disk = [(lit ''.'', Dir)], calls = []\<rparr> (Some (lit ''a.txt''))
             (Some (lit ''hello'')) of
        (r, w1) \<Rightarrow>
          \<not> isError r
          \<and> map_of (disk w1) (lit ''a.txt'') = Some (File (lit ''hello''))
          \<and> fst (fs_readFile w1 (lit ''a.txt'')) = Inr (lit ''hello'')
          \<and> fst (readFile w1 (Some (lit ''a.txt'')))
              = ok_result (content_text (lit ''a.txt'') (lit ''hello'')))"
proof -
  let ?w = "\<lparr>disk = [(lit ''.'', Dir)], calls = []\<rparr>"
  have a: "\<not> invalid_path (Some (lit ''a.txt''))"
    by (simp add: invalid_path_def trim_def lit_def is_white_def)
  have b: "map_of (disk ?w) (lit ''a.txt'') = None"
    by (simp add: lit_def)
  have c: "map_of (disk ?w) (parentDir (lit ''a.txt'')) = Some Dir"
    by (simp add: parentDir_def lit_def)
  show ?thesis
    using a b c C8_create_then_read [OF a b c] by simp
qed

text \<open>Counterexample to C8 as stated: nothing exists at the path of one space and its directory exists, yet \<open>createFile\<close> creates nothing and \<open>readFile\<close> reads nothing there.\<close>

theorem C8_counterexample:
  "map_of [(lit ''.'', Dir)] (lit '' '') = None
   \<and> map_of [(lit ''.'', Dir)] (parentDir (lit '' '')) = Some Dir
   \<and> createFile \<lparr>disk = [(lit ''.'', Dir)], calls = []\<rparr> (Some (lit '' '')) (Some (lit ''hello''))
       = (error_result bad_path_text, \<lparr>disk = [(lit ''.'', Dir)], calls = []\<rparr>)
   \<and> readFile \<lparr>disk = [(lit ''.'', Dir)], calls = []\<rparr> (Some (lit '' ''))
       = (error_result bad_path_text, \<lparr>disk = [(lit ''.'', Dir)], calls = []\<rparr>)"
  by (simp add: createFile_def readFile_def invalid_path_def trim_def lit_def is_white_def
        parentDir_def)

text \<open>
  C9. \<open>createFile\<close> succeeds exactly when the path is not blank, nothing exists at it and its
  directory exists; the file then written holds \<open>finalContent\<close> of the content argument, which
  is never empty nor whitespace-only, and which is the default text when the content argument
  is absent, empty or whitespace-only.
\<close>
theorem C9_default_content:
  assumes "createFile w path c = (r, w')"
  shows "(\<not> isError r \<longleftrightarrow>
            (\<exists>p. path = Some p \<and> \<not> invalid_path (Some p) \<and> map_of (disk w) p = None
                 \<and> map_of (disk w) (parentDir p) = Some Dir))
       \<and> (\<not> isError r \<longrightarrow>
            (\<exists>p. path = Some p \<and> map_of (disk w') p = Some (File (finalContent c)))
            \<and> finalContent c \<noteq> [] \<and> trim (finalContent c) \<noteq> []
            \<and> ((case c of None \<Rightarrow> True | Some x \<Rightarrow> x = [] \<or> trim x = [])
                 \<longrightarrow> finalContent c = default_content))"
proof -
  have ok: "\<exists>p. path = Some p \<and> \<not> invalid_path (Some p) \<and> map_of (disk w) p = None
                 \<and> map_of (disk w) (parentDir p) = Some Dir" if "\<not> isError r"
    using assms that by (rule createFile_ok_iff)
  have conv: "\<not> isError r \<and> map_of (disk w') p = Some (File (finalContent c))"
    if "path = Some p" "\<not> invalid_path (Some p)" "map_of (disk w) p = None"
       "map_of (disk w) (parentDir p) = Some Dir" for p
    using assms that by (auto simp: createFile_success update_conv')
  have nb: "trim (finalContent c) \<noteq> []"
    by (rule finalContent_not_blank)
  then have ne: "finalContent c \<noteq> []"
    by auto
  have dflt: "finalContent c = default_content"
    if "case c of None \<Rightarrow> True | Some x \<Rightarrow> x = [] \<or> trim x = []"
    using that by (auto simp: finalContent_def split: option.splits)
  from ok conv nb ne dflt show ?thesis
    by blast
qed

text \<open>Witness for C9: a create with whitespace-only content writes the default text.\<close>

theorem C9_default_content_witness:
  "(case createFile \<lparr>disk = [(lit ''.'', Dir)], calls = []\<rparr> (Some (lit ''a.txt'')) (Some (lit ''  '')) of
      (r, w') \<Rightarrow>
        \<not> isError r
        \<and> map_of (disk w') (lit ''a.txt'') = Some (File default_content))
   \<and> default_content = [0xD83D, 0xDCC4] @ lit '' Default file content generated by the MCP tool.''"
proof -
  let ?w = "\<lparr>disk = [(lit ''.'', Dir)], calls = []\<rparr>"
  let ?res = "createFile ?w (Some (lit ''a.txt'')) (Some (lit ''  ''))"
  have e: "?res = (fst ?res, snd ?res)"
    by simp
  have pre: "\<exists>p. Some (lit ''a.txt'') = Some p \<and> \<not> invalid_path (Some p)
      \<and> map_of (disk ?w) p = None \<and> map_of (disk ?w) (parentDir p) = Some Dir"
    by (simp add: invalid_path_def trim_def lit_def is_white_def parentDir_def)
  have blank: "case Some (lit ''  '') of None \<Rightarrow> True | Some x \<Rightarrow> x = [] \<or> trim x = []"
    by (simp add: trim_def lit_def is_white_def)
  from C9_default_content [OF e] pre blank
  have "\<not> isError (fst ?res) \<and> map_of (disk (snd ?res)) (lit ''a.txt'') = Some (File default_content)"
    by auto
  then show ?thesis
    by (simp add: case_prod_beta default_content_def)
qed



section \<open>Properties of the driver\<close>

text \<open>
  The loop over a batch: when every call is answered, the transcript grows by one tool message
  per call; when one is rejected, the loop ends with a rejection.
\<close>

lemma run_tool_calls_answers:
  "outcomes callTool s toolCalls = map Inr rs \<Longrightarrow>
   fst (run_tool_calls callTool s messages toolCalls)
     = Inr (messages @ map2 tool_message toolCalls (map (\<lambda>r. toolOutput (content r)) rs))"
proof (induction toolCalls arbitrary: s messages rs)
  case Nil
  then show ?case by simp
next
  case (Cons toolCall rest)
  obtain r s' where call: "callTool s (fn_name toolCall) (fn_arguments toolCall) = (r, s')"
    by (cases "callTool s (fn_name toolCall) (fn_arguments toolCall)")
  with Cons.prems obtain r' rs' where rs: "rs = r' # rs'" "r = Inr r'"
    "outcomes callTool s' rest = map Inr rs'"
    by (cases rs) auto
  from Cons.IH [OF rs(3)] call rs(1,2) show ?case
    by simp
qed

lemma run_tool_calls_rejected:
  "Inl e \<in> set (outcomes callTool s toolCalls) \<Longrightarrow>
   \<exists>e'. fst (run_tool_calls callTool s messages toolCalls) = Inl e'"
proof (induction toolCalls arbitrary: s messages)
  case Nil
  then show ?case by simp
next
  case (Cons toolCall rest)
  then show ?case
    by (cases "callTool s (fn_name toolCall) (fn_arguments toolCall)")
       (auto split: sum.splits)
qed

lemma turn_plain:
  assumes "callLLM llm (messages @ [user_message u]) tools = Inr resp"
    "tool_calls resp = None \<or> tool_calls resp = Some []"
  shows "turn llm tools callTool s messages u
    = (Inr (messages @ [user_message u, assistant_message (m_content resp)]), s)"
  using assms by (auto simp: turn_def)

lemma turn_calls:
  assumes "callLLM llm (messages @ [user_message u]) tools = Inr resp"
    "tool_calls resp = Some toolCalls" "toolCalls \<noteq> []"
  shows "turn llm tools callTool s messages u
    = (case run_tool_calls callTool s (messages @ [user_message u, calls_message toolCalls]) toolCalls of
         (Inl e, s') \<Rightarrow> (Inl e, s')
       | (Inr messages3, s') \<Rightarrow>
           (case callLLM llm messages3 tools of
              Inl e \<Rightarrow> (Inl e, s')
            | Inr finalResponse \<Rightarrow>
                (Inr (messages3 @ [assistant_message (m_content finalResponse)]), s')))"
  using assms by (simp add: turn_def)

lemma length_outcomes [simp]: "length (outcomes callTool s toolCalls) = length toolCalls"
  by (induction toolCalls arbitrary: s) (auto split: prod.splits)

lemma outcomes_results_length:
  "outcomes callTool s toolCalls = map Inr rs \<Longrightarrow> length rs = length toolCalls"
  by (metis length_map length_outcomes)

lemma run_tool_calls_answered:
  "outcomes callTool s toolCalls = map Inr rs \<Longrightarrow>
   run_tool_calls callTool s messages toolCalls
     = (Inr (messages @ map2 tool_message toolCalls (map (\<lambda>r. toolOutput (content r)) rs)),
        state_after callTool s toolCalls)"
proof (induction toolCalls arbitrary: s messages rs)
  case Nil
  then show ?case by simp
next
  case (Cons toolCall rest)
  obtain r s' where call: "callTool s (fn_name toolCall) (fn_arguments toolCall) = (r, s')"
    by (cases "callTool s (fn_name toolCall) (fn_arguments toolCall)")
  with Cons.prems obtain r' rs' where rs: "rs = r' # rs'" "r = Inr r'"
    "outcomes callTool s' rest = map Inr rs'"
    by (cases rs) auto
  from Cons.IH [OF rs(3)] call rs(1,2) show ?case
    by simp
qed

lemma run_tool_calls_append:
  "outcomes callTool s answered = map Inr rs \<Longrightarrow>
   run_tool_calls callTool s messages (answered @ rest)
     = run_tool_calls callTool (state_after callTool s answered)
         (messages @ map2 tool_message answered (map (\<lambda>r. toolOutput (content r)) rs)) rest"
proof (induction answered arbitrary: s messages rs)
  case Nil
  then show ?case by simp
next
  case (Cons toolCall more)
  obtain r s' where call: "callTool s (fn_name toolCall) (fn_arguments toolCall) = (r, s')"
    by (cases "callTool s (fn_name toolCall) (fn_arguments toolCall)")
  with Cons.prems obtain r' rs' where rs: "rs = r' # rs'" "r = Inr r'"
    "outcomes callTool s' more = map Inr rs'"
    by (cases rs) auto
  from Cons.IH [OF rs(3)] call rs(1,2) show ?case
    by simp
qed

lemma run_tool_calls_first_rejection:
  assumes "outcomes callTool s answered = map Inr rs"
    and "callTool (state_after callTool s answered) (fn_name rejected) (fn_arguments rejected)
           = (Inl e, s')"
  shows "run_tool_calls callTool s messages (answered @ rejected # remaining) = (Inl e, s')"
  using run_tool_calls_append [OF assms(1), of messages "rejected # remaining"] assms(2)
  by simp

lemma turn_rejected:
  assumes "callLLM llm (messages @ [user_message u]) tools = Inr resp"
    and "tool_calls resp = Some toolCalls" and "toolCalls \<noteq> []"
    and "Inl e \<in> set (outcomes callTool s toolCalls)"
  shows "\<exists>e'. fst (turn llm tools callTool s messages u) = Inl e'"
proof -
  from run_tool_calls_rejected [OF assms(4)]
  obtain e' where "fst (run_tool_calls callTool s
      (messages @ [user_message u, calls_message toolCalls]) toolCalls) = Inl e'"
    by blast
  then show ?thesis
    using turn_calls [OF assms(1-3), of callTool s]
    by (auto split: prod.splits sum.splits)
qed

text \<open>
  C1, as amended. When the reply to a user message carries tool-call requests and the batch
  has been executed and answered, the driver queries the model once more and ends the turn by
  appending the content of that reply as an assistant message without tool-call requests,
  whatever the reply carries: requests in it are neither executed (the state of the toolhost
  is the one the batch left) nor recorded.
\<close>

theorem C1_single_requery:
  assumes "callLLM llm (messages @ [user_message u]) tools = Inr resp"
    and "tool_calls resp = Some toolCalls" and "toolCalls \<noteq> []"
    and "run_tool_calls callTool s (messages @ [user_message u, calls_message toolCalls]) toolCalls
           = (Inr messages3, s3)"
    and "callLLM llm messages3 tools = Inr finalResponse"
  shows "turn llm tools callTool s messages u
           = (Inr (messages3 @ [\<lparr>role = Assistant, m_content = m_content finalResponse,
                                  tool_calls = None, tool_call_id = None\<rparr>]), s3)"
  using turn_calls [OF assms(1-3), of callTool s] assms(4,5)
  by (simp add: assistant_message_def)

text \<open>
  Witness for C1: a model that answers every transcript with one tool-call request; the turn
  runs the one batch, queries again and ends.
\<close>

theorem C1_single_requery_witness:
  "turn (\<lambda>ms (t::unit). Inr (Some (calls_message
             [\<lparr>tc_id = None, fn_name = lit ''listFiles'', fn_arguments = ()\<rparr>]))
           :: unit + unit chat_message option)
        ()
        (\<lambda>(n::nat) name (a::unit). (Inr (ok_result (lit ''ok'')) :: unit + tool_result, Suc n))
        0 [] (lit ''hi'')
   = (Inr [user_message (lit ''hi''),
           calls_message [\<lparr>tc_id = None, fn_name = lit ''listFiles'', fn_arguments = ()\<rparr>],
           tool_message \<lparr>tc_id = None, fn_name = lit ''listFiles'', fn_arguments = ()\<rparr> (lit ''ok''),
           \<lparr>role = Assistant, m_content = Some [], tool_calls = None, tool_call_id = None\<rparr>],
      1)"
proof -
  let ?tc = "\<lparr>tc_id = None, fn_name = lit ''listFiles'', fn_arguments = ()\<rparr> :: unit tool_call"
  let ?llm = "\<lambda>(ms :: unit chat_message list) (t::unit).
      Inr (Some (calls_message [?tc])) :: unit + unit chat_message option"
  let ?ct = "\<lambda>(n::nat) (name::jsstring) (a::unit).
      (Inr (ok_result (lit ''ok'')) :: unit + tool_result, Suc n)"
  let ?m3 = "[user_message (lit ''hi''), calls_message [?tc], tool_message ?tc (lit ''ok'')]"
  have a: "callLLM ?llm ([] @ [user_message (lit ''hi'')]) () = Inr (calls_message [?tc])"
    by (simp add: callLLM_def)
  have b: "tool_calls (calls_message [?tc]) = Some [?tc]"
    by (simp add: calls_message_def)
  have c: "[?tc] \<noteq> []"
    by simp
  have d: "run_tool_calls ?ct 0 ([] @ [user_message (lit ''hi''), calls_message [?tc]]) [?tc]
      = (Inr ?m3, 1)"
    by (simp add: toolOutput_def ok_result_def text_item_def)
  have e: "callLLM ?llm ?m3 () = Inr (calls_message [?tc])"
    by (simp add: callLLM_def)
  from C1_single_requery [OF a b c d e] show ?thesis
    by (simp add: calls_message_def)
qed

text \<open>
  Counterexample to C1 as stated: the model answers every transcript with a tool-call request,
  so the reply to the query made after the batch again carries one (first conjunct). The turn
  ends all the same: one tool was executed (the state of the toolhost counts the calls), the
  second request was not, and the transcript ends with an assistant message without requests.
\<close>

theorem C1_counterexample:
  "callLLM (\<lambda>ms (t::unit). Inr (Some (calls_message
             [\<lparr>tc_id = None, fn_name = lit ''listFiles'', fn_arguments = ()\<rparr>]))
           :: unit + unit chat_message option)
        [user_message (lit ''hi''),
         calls_message [\<lparr>tc_id = None, fn_name = lit ''listFiles'', fn_arguments = ()\<rparr>],
         tool_message \<lparr>tc_id = None, fn_name = lit ''listFiles'', fn_arguments = ()\<rparr> (lit ''ok'')]
        ()
     = Inr (calls_message [\<lparr>tc_id = None, fn_name = lit ''listFiles'', fn_arguments = ()\<rparr>])
   \<and> turn (\<lambda>ms (t::unit). Inr (Some (calls_message
             [\<lparr>tc_id = None, fn_name = lit ''listFiles'', fn_arguments = ()\<rparr>]))
           :: unit + unit chat_message option)
        ()
        (\<lambda>(n::nat) name (a::unit). (Inr (ok_result (lit ''ok'')) :: unit + tool_result, Suc n))
        0 [] (lit ''hi'')
     = (Inr [\<lparr>role = User, m_content = Some (lit ''hi''), tool_calls = None, tool_call_id = None\<rparr>,
             \<lparr>role = Assistant, m_content = Some [],
               tool_calls = Some [\<lparr>tc_id = None, fn_name = lit ''listFiles'', fn_arguments = ()\<rparr>],
               tool_call_id = None\<rparr>,
             \<lparr>role = Tool, m_content = Some (lit ''ok''), tool_calls = None,
               tool_call_id = Some (lit ''listFiles'')\<rparr>,
             \<lparr>role = Assistant, m_content = Some [], tool_calls = None, tool_call_id = None\<rparr>],
        1)"
  by (simp add: turn_def callLLM_def user_message_def calls_message_def assistant_message_def
        tool_message_def toolOutput_def ok_result_def text_item_def)

text \<open>
  C2, as amended. When the reply to a user message carries N tool-call requests (N at least 1)
  and every call of the batch is answered, the transcript that is next submitted to the model
  is the old one followed by the user message, one assistant message with empty content that
  records the requests, and N tool messages, the i-th of which answers the i-th request: its
  key is the identifier of the request, or the tool name when there is none, and its content
  the text of the result. When a call is rejected, the turn ends with the rejection and
  nothing is submitted.
\<close>

theorem C2_batch_answered_in_order:
  assumes "callLLM llm (messages @ [user_message u]) tools = Inr resp"
    and "tool_calls resp = Some toolCalls" and "toolCalls \<noteq> []"
  shows "(outcomes callTool s toolCalls = map Inr rs \<longrightarrow>
          (\<exists>answers. length answers = length toolCalls
             \<and> (\<forall>i < length toolCalls.
                   role (answers ! i) = Tool
                 \<and> tool_call_id (answers ! i)
                     = Some (case tc_id (toolCalls ! i) of
                               None \<Rightarrow> fn_name (toolCalls ! i)
                             | Some k \<Rightarrow> k)
                 \<and> m_content (answers ! i) = Some (toolOutput (content (rs ! i))))
             \<and> fst (turn llm tools callTool s messages u)
                 = (case callLLM llm
                          (messages @ [user_message u, calls_message toolCalls] @ answers) tools of
                      Inl e \<Rightarrow> Inl e
                    | Inr finalResponse \<Rightarrow>
                        Inr (messages @ [user_message u, calls_message toolCalls] @ answers
                               @ [assistant_message (m_content finalResponse)]))))
       \<and> ((\<exists>e. Inl e \<in> set (outcomes callTool s toolCalls)) \<longrightarrow>
            (\<exists>e. fst (turn llm tools callTool s messages u) = Inl e))"
proof (intro conjI impI)
  assume o: "outcomes callTool s toolCalls = map Inr rs"
  let ?answers = "map2 tool_message toolCalls (map (\<lambda>r. toolOutput (content r)) rs)"
  let ?m2 = "messages @ [user_message u, calls_message toolCalls]"
  have lrs: "length rs = length toolCalls"
    using o by (rule outcomes_results_length)
  then have len: "length ?answers = length toolCalls"
    by simp
  have run: "fst (run_tool_calls callTool s ?m2 toolCalls) = Inr (?m2 @ ?answers)"
    using o by (rule run_tool_calls_answers)
  have each: "role (?answers ! i) = Tool
         \<and> tool_call_id (?answers ! i)
             = Some (case tc_id (toolCalls ! i) of None \<Rightarrow> fn_name (toolCalls ! i) | Some k \<Rightarrow> k)
         \<and> m_content (?answers ! i) = Some (toolOutput (content (rs ! i)))"
    if "i < length toolCalls" for i
    using that lrs by (simp add: tool_message_def)
  obtain s' where run': "run_tool_calls callTool s ?m2 toolCalls = (Inr (?m2 @ ?answers), s')"
    using run by (cases "run_tool_calls callTool s ?m2 toolCalls") auto
  have "fst (turn llm tools callTool s messages u)
         = (case callLLM llm (messages @ [user_message u, calls_message toolCalls] @ ?answers) tools of
              Inl e \<Rightarrow> Inl e
            | Inr finalResponse \<Rightarrow>
                Inr (messages @ [user_message u, calls_message toolCalls] @ ?answers
                       @ [assistant_message (m_content finalResponse)]))"
    using turn_calls [OF assms(1-3), of callTool s] run'
    by (simp split: sum.splits)
  with len each
  show "\<exists>answers. length answers = length toolCalls
             \<and> (\<forall>i < length toolCalls.
                   role (answers ! i) = Tool
                 \<and> tool_call_id (answers ! i)
                     = Some (case tc_id (toolCalls ! i) of
                               None \<Rightarrow> fn_name (toolCalls ! i)
                             | Some k \<Rightarrow> k)
                 \<and> m_content (answers ! i) = Some (toolOutput (content (rs ! i))))
             \<and> fst (turn llm tools callTool s messages u)
                 = (case callLLM llm
                          (messages @ [user_message u, calls_message toolCalls] @ answers) tools of
                      Inl e \<Rightarrow> Inl e
                    | Inr finalResponse \<Rightarrow>
                        Inr (messages @ [user_message u, calls_message toolCalls] @ answers
                               @ [assistant_message (m_content finalResponse)]))"
    by (intro exI [of _ ?answers]) simp
next
  assume "\<exists>e. Inl e \<in> set (outcomes callTool s toolCalls)"
  then obtain e where "Inl e \<in> set (outcomes callTool s toolCalls)"
    by blast
  then show "\<exists>e. fst (turn llm tools callTool s messages u) = Inl e"
    by (rule turn_rejected [OF assms])
qed

text \<open>
  Witness for C2: a batch of two requests, the first with an identifier and the second
  without; the second query of the turn returns a plain answer.
\<close>

theorem C2_batch_answered_in_order_witness:
  "\<exists>answers. length answers = 2
     \<and> role (answers ! 0) = Tool \<and> tool_call_id (answers ! 0) = Some (lit ''call-1'')
     \<and> role (answers ! 1) = Tool \<and> tool_call_id (answers ! 1) = Some (lit ''listFiles'')
     \<and> fst (turn (\<lambda>ms (t::unit).
                    (if length ms = 1
                     then Inr (Some (calls_message
                            [\<lparr>tc_id = Some (lit ''call-1''), fn_name = lit ''readFile'', fn_arguments = ()\<rparr>,
                             \<lparr>tc_id = None, fn_name = lit ''listFiles'', fn_arguments = ()\<rparr>]))
                     else Inr (Some (assistant_message (Some (lit ''done'')))))
                    :: unit + unit chat_message option)
                ()
                (\<lambda>(n::nat) name (a::unit). (Inr (ok_result name) :: unit + tool_result, Suc n))
                0 [] (lit ''hi''))
         = Inr ([user_message (lit ''hi''),
                 calls_message
                   [\<lparr>tc_id = Some (lit ''call-1''), fn_name = lit ''readFile'', fn_arguments = ()\<rparr>,
                    \<lparr>tc_id = None, fn_name = lit ''listFiles'', fn_arguments = ()\<rparr>]]
                @ answers @ [assistant_message (Some (lit ''done''))])"
proof -
  let ?tcs = "[\<lparr>tc_id = Some (lit ''call-1''), fn_name = lit ''readFile'', fn_arguments = ()\<rparr>,
               \<lparr>tc_id = None, fn_name = lit ''listFiles'', fn_arguments = ()\<rparr>] :: unit tool_call list"
  let ?llm = "\<lambda>(ms :: unit chat_message list) (t::unit).
      (if length ms = 1 then Inr (Some (calls_message ?tcs))
       else Inr (Some (assistant_message (Some (lit ''done''))))) :: unit + unit chat_message option"
  let ?ct = "\<lambda>(n::nat) (name::jsstring) (a::unit). (Inr (ok_result name) :: unit + tool_result, Suc n)"
  have a: "callLLM ?llm ([] @ [user_message (lit ''hi'')]) () = Inr (calls_message ?tcs)"
    by (simp add: callLLM_def)
  have b: "tool_calls (calls_message ?tcs) = Some ?tcs"
    by (simp add: calls_message_def)
  have c: "?tcs \<noteq> []"
    by simp
  have d: "outcomes ?ct 0 ?tcs = map Inr [ok_result (lit ''readFile''), ok_result (lit ''listFiles'')]"
    by simp
  from C2_batch_answered_in_order [OF a b c, of ?ct 0
      "[ok_result (lit ''readFile''), ok_result (lit ''listFiles'')]"] d
  obtain answers where ans: "length answers = length ?tcs"
    "\<forall>i < length ?tcs.
           role (answers ! i) = Tool
         \<and> tool_call_id (answers ! i)
             = Some (case tc_id (?tcs ! i) of None \<Rightarrow> fn_name (?tcs ! i) | Some k \<Rightarrow> k)
         \<and> m_content (answers ! i)
             = Some (toolOutput (content ([ok_result (lit ''readFile''), ok_result (lit ''listFiles'')] ! i)))"
    "fst (turn ?llm () ?ct 0 [] (lit ''hi''))
         = (case callLLM ?llm ([] @ [user_message (lit ''hi''), calls_message ?tcs] @ answers) () of
              Inl e \<Rightarrow> Inl e
            | Inr finalResponse \<Rightarrow>
                Inr ([] @ [user_message (lit ''hi''), calls_message ?tcs] @ answers
                       @ [assistant_message (m_content finalResponse)]))"
    by blast
  from ans(2) have "role (answers ! 0) = Tool \<and> tool_call_id (answers ! 0) = Some (lit ''call-1'')"
    by (drule_tac x = 0 in spec) simp
  moreover from ans(2) have "role (answers ! 1) = Tool \<and> tool_call_id (answers ! 1) = Some (lit ''listFiles'')"
    by (drule_tac x = 1 in spec) simp
  moreover from ans(1,3) have "fst (turn ?llm () ?ct 0 [] (lit ''hi''))
      = Inr ([user_message (lit ''hi''), calls_message ?tcs] @ answers
              @ [assistant_message (Some (lit ''done''))])"
    by (simp add: callLLM_def assistant_message_def)
  ultimately show ?thesis
    using ans(1) by (intro exI [of _ answers]) simp
qed

text \<open>
  Counterexample to C2 as stated: the reply to the query made after the batch carries two
  tool-call requests. The driver appends neither an assistant message that records them nor
  any tool message for them; the transcript it will submit next ends with an assistant message
  without requests.
\<close>

theorem C2_counterexample:
  "callLLM (\<lambda>ms (t::unit).
        (if length ms = 1
         then Inr (Some (calls_message [\<lparr>tc_id = Some (lit ''a''), fn_name = lit ''readFile'', fn_arguments = ()\<rparr>]))
         else Inr (Some (calls_message [\<lparr>tc_id = Some (lit ''b''), fn_name = lit ''readFile'', fn_arguments = ()\<rparr>,
                                        \<lparr>tc_id = Some (lit ''c''), fn_name = lit ''listFiles'', fn_arguments = ()\<rparr>])))
        :: unit + unit chat_message option)
      [user_message (lit ''hi''),
       calls_message [\<lparr>tc_id = Some (lit ''a''), fn_name = lit ''readFile'', fn_arguments = ()\<rparr>],
       tool_message \<lparr>tc_id = Some (lit ''a''), fn_name = lit ''readFile'', fn_arguments = ()\<rparr> (lit ''ok'')]
      ()
     = Inr (calls_message [\<lparr>tc_id = Some (lit ''b''), fn_name = lit ''readFile'', fn_arguments = ()\<rparr>,
                           \<lparr>tc_id = Some (lit ''c''), fn_name = lit ''listFiles'', fn_arguments = ()\<rparr>])
   \<and> turn (\<lambda>ms (t::unit).
        (if length ms = 1
         then Inr (Some (calls_message [\<lparr>tc_id = Some (lit ''a''), fn_name = lit ''readFile'', fn_arguments = ()\<rparr>]))
         else Inr (Some (calls_message [\<lparr>tc_id = Some (lit ''b''), fn_name = lit ''readFile'', fn_arguments = ()\<rparr>,
                                        \<lparr>tc_id = Some (lit ''c''), fn_name = lit ''listFiles'', fn_arguments = ()\<rparr>])))
        :: unit + unit chat_message option)
      ()
      (\<lambda>(n::nat) name (a::unit). (Inr (ok_result (lit ''ok'')) :: unit + tool_result, Suc n))
      0 [] (lit ''hi'')
     = (Inr [user_message (lit ''hi''),
             calls_message [\<lparr>tc_id = Some (lit ''a''), fn_name = lit ''readFile'', fn_arguments = ()\<rparr>],
             tool_message \<lparr>tc_id = Some (lit ''a''), fn_name = lit ''readFile'', fn_arguments = ()\<rparr> (lit ''ok''),
             assistant_message (Some [])],
        1)"
  by (simp add: turn_def callLLM_def toolOutput_def ok_result_def text_item_def calls_message_def)

text \<open>
  C3, as amended. When every call of a batch is answered with a Tool Result, error-flagged or
  not, the loop executes every call and appends one tool message per call, in order, each
  with the text of its own result, and leaves the toolhost in the state after all the calls:
  an error-flagged result does not stop the loop. When the calls before some call are
  answered and that call is rejected, the loop ends with that rejection and with the toolhost
  in the state right after the rejected call: the remaining calls are not made.
\<close>

theorem C3_no_short_circuit:
  "(outcomes callTool s toolCalls = map Inr rs \<longrightarrow>
      run_tool_calls callTool s messages toolCalls
        = (Inr (messages @ map2 tool_message toolCalls (map (\<lambda>r. toolOutput (content r)) rs)),
           state_after callTool s toolCalls)
      \<and> length (map2 tool_message toolCalls (map (\<lambda>r. toolOutput (content r)) rs))
        = length toolCalls)
   \<and> (toolCalls = answered @ rejected # remaining
        \<and> outcomes callTool s answered = map Inr rs'
        \<and> callTool (state_after callTool s answered) (fn_name rejected) (fn_arguments rejected)
            = (Inl e, s') \<longrightarrow>
        run_tool_calls callTool s messages toolCalls = (Inl e, s'))"
proof (intro conjI impI)
  assume o: "outcomes callTool s toolCalls = map Inr rs"
  then show "run_tool_calls callTool s messages toolCalls
        = (Inr (messages @ map2 tool_message toolCalls (map (\<lambda>r. toolOutput (content r)) rs)),
           state_after callTool s toolCalls)"
    by (rule run_tool_calls_answered)
  from o have "length rs = length toolCalls"
    by (rule outcomes_results_length)
  then show "length (map2 tool_message toolCalls (map (\<lambda>r. toolOutput (content r)) rs))
        = length toolCalls"
    by simp
next
  assume "toolCalls = answered @ rejected # remaining
        \<and> outcomes callTool s answered = map Inr rs'
        \<and> callTool (state_after callTool s answered) (fn_name rejected) (fn_arguments rejected)
            = (Inl e, s')"
  then show "run_tool_calls callTool s messages toolCalls = (Inl e, s')"
    by (simp add: run_tool_calls_first_rejection)
qed

text \<open>
  Witness for C3. First a batch of three calls whose second names a tool that the toolhost
  does not know and is answered with an error-flagged result: all three are executed and
  answered. Then a batch of two calls whose first is rejected: the loop ends with that
  rejection after one call.
\<close>

theorem C3_no_short_circuit_witness:
  "outcomes (\<lambda>(n::nat) name (a::unit).
        (if name = lit ''readFile'' then Inr (ok_result (lit ''data''))
         else Inr (error_result (lit ''unknown tool'')) :: unit + tool_result, Suc n))
      0
      [\<lparr>tc_id = Some (lit ''1''), fn_name = lit ''readFile'', fn_arguments = ()\<rparr>,
       \<lparr>tc_id = None, fn_name = lit ''noSuchTool'', fn_arguments = ()\<rparr>,
       \<lparr>tc_id = Some (lit ''3''), fn_name = lit ''readFile'', fn_arguments = ()\<rparr>]
    = map Inr [ok_result (lit ''data''), error_result (lit ''unknown tool''), ok_result (lit ''data'')]
   \<and> run_tool_calls (\<lambda>(n::nat) name (a::unit).
        (if name = lit ''readFile'' then Inr (ok_result (lit ''data''))
         else Inr (error_result (lit ''unknown tool'')) :: unit + tool_result, Suc n))
      0 []
      [\<lparr>tc_id = Some (lit ''1''), fn_name = lit ''readFile'', fn_arguments = ()\<rparr>,
       \<lparr>tc_id = None, fn_name = lit ''noSuchTool'', fn_arguments = ()\<rparr>,
       \<lparr>tc_id = Some (lit ''3''), fn_name = lit ''readFile'', fn_arguments = ()\<rparr>]
    = (Inr [\<lparr>role = Tool, m_content = Some (lit ''data''), tool_calls = None,
              tool_call_id = Some (lit ''1'')\<rparr>,
            \<lparr>role = Tool, m_content = Some (lit ''unknown tool''), tool_calls = None,
              tool_call_id = Some (lit ''noSuchTool'')\<rparr>,
            \<lparr>role = Tool, m_content = Some (lit ''data''), tool_calls = None,
              tool_call_id = Some (lit ''3'')\<rparr>],
       3)
   \<and> run_tool_calls (\<lambda>(n::nat) name (a::unit). (Inl (lit ''down'') :: jsstring + tool_result, Suc n))
      0 []
      [\<lparr>tc_id = None, fn_name = lit ''readFile'', fn_arguments = ()\<rparr>,
       \<lparr>tc_id = None, fn_name = lit ''listFiles'', fn_arguments = ()\<rparr>]
    = (Inl (lit ''down''), 1)"
proof -
  let ?ct = "\<lambda>(n::nat) name (a::unit).
        (if name = lit ''readFile'' then Inr (ok_result (lit ''data''))
         else Inr (error_result (lit ''unknown tool'')) :: unit + tool_result, Suc n)"
  let ?tcs = "[\<lparr>tc_id = Some (lit ''1''), fn_name = lit ''readFile'', fn_arguments = ()\<rparr>,
       \<lparr>tc_id = None, fn_name = lit ''noSuchTool'', fn_arguments = ()\<rparr>,
       \<lparr>tc_id = Some (lit ''3''), fn_name = lit ''readFile'', fn_arguments = ()\<rparr>]"
  let ?rs = "[ok_result (lit ''data''), error_result (lit ''unknown tool''), ok_result (lit ''data'')]"
  let ?down = "\<lambda>(n::nat) (name::jsstring) (a::unit). (Inl (lit ''down'') :: jsstring + tool_result, Suc n)"
  let ?a = "\<lparr>tc_id = None, fn_name = lit ''readFile'', fn_arguments = ()\<rparr> :: unit tool_call"
  let ?b = "\<lparr>tc_id = None, fn_name = lit ''listFiles'', fn_arguments = ()\<rparr> :: unit tool_call"
  have o: "outcomes ?ct 0 ?tcs = map Inr ?rs"
    by (simp add: lit_def)
  have st: "state_after ?ct 0 ?tcs = 3"
    by simp
  from C3_no_short_circuit [of ?ct 0 ?tcs ?rs "[]"] o
  have "run_tool_calls ?ct 0 [] ?tcs
      = (Inr ([] @ map2 tool_message ?tcs (map (\<lambda>r. toolOutput (content r)) ?rs)),
         state_after ?ct 0 ?tcs)"
    by blast
  then have all: "run_tool_calls ?ct 0 [] ?tcs
      = (Inr [\<lparr>role = Tool, m_content = Some (lit ''data''), tool_calls = None,
              tool_call_id = Some (lit ''1'')\<rparr>,
            \<lparr>role = Tool, m_content = Some (lit ''unknown tool''), tool_calls = None,
              tool_call_id = Some (lit ''noSuchTool'')\<rparr>,
            \<lparr>role = Tool, m_content = Some (lit ''data''), tool_calls = None,
              tool_call_id = Some (lit ''3'')\<rparr>], 3)"
    unfolding st
    by (simp add: tool_message_def toolOutput_def ok_result_def error_result_def text_item_def)
  have pre: "[?a, ?b] = [] @ ?a # [?b]
      \<and> outcomes ?down 0 [] = map Inr []
      \<and> ?down (state_after ?down 0 []) (fn_name ?a) (fn_arguments ?a) = (Inl (lit ''down''), 1)"
    by simp
  from C3_no_short_circuit [of ?down 0 "[?a, ?b]" _ _ "[]" ?a "[?b]" "[]" "lit ''down''" 1] pre
  have rej: "run_tool_calls ?down 0 [] [?a, ?b] = (Inl (lit ''down''), 1)"
    by blast
  from o all rej show ?thesis
    by blast
qed

text \<open>
  Counterexample to C3 as stated: the toolhost rejects the call that names an unknown tool.
  The loop has no handler for the rejection: the batch ends with it after two calls, the third
  call is never made and no tool message for it exists.
\<close>

theorem C3_counterexample:
  "run_tool_calls (\<lambda>(n::nat) name (a::unit).
        (if name = lit ''readFile'' then Inr (ok_result (lit ''data''))
         else Inl (lit ''Tool not found'') :: jsstring + tool_result, Suc n))
      0 []
      [\<lparr>tc_id = Some (lit ''1''), fn_name = lit ''readFile'', fn_arguments = ()\<rparr>,
       \<lparr>tc_id = None, fn_name = lit ''noSuchTool'', fn_arguments = ()\<rparr>,
       \<lparr>tc_id = Some (lit ''3''), fn_name = lit ''readFile'', fn_arguments = ()\<rparr>]
    = (Inl (lit ''Tool not found''), 2)"
  by (simp add: lit_def)

section \<open>Properties of the session table\<close>

text \<open>The two branches of the endpoint, and the invariant that table objects are old.\<close>

lemma handleRequest_allocated [simp]:
  "allocated (handleRequest randomUUID initializes h t req) = allocated h"
  by (simp add: handleRequest_def)

lemma handleRequest_transports:
  "transports (handleRequest randomUUID initializes h t req)
     = (if initializes h t req then (transports h)(randomUUID (uuids h) \<mapsto> t) else transports h)"
  by (simp add: handleRequest_def)

lemma post_mcp_known:
  assumes "sid \<noteq> []" "transports h sid = Some t"
  shows "post_mcp randomUUID initializes h (Some sid) req
           = Inr (t, handleRequest randomUUID initializes h t req)"
  using assms by (simp add: post_mcp_def get_property_def)

lemma post_mcp_new:
  assumes "sessionId = None \<or> sessionId = Some []
     \<or> (\<exists>sid. sessionId = Some sid \<and> transports h sid = None \<and> sid \<notin> set object_prototype_keys)"
  shows "post_mcp randomUUID initializes h sessionId req
           = Inr (\<lparr>transport_ref = Suc (allocated h), mcp_ref = allocated h\<rparr>,
                  handleRequest randomUUID initializes (h\<lparr>allocated := Suc (Suc (allocated h))\<rparr>)
                    \<lparr>transport_ref = Suc (allocated h), mcp_ref = allocated h\<rparr> req)"
  using assms by (auto simp: post_mcp_def get_property_def Let_def)

lemma host_ok_handleRequest:
  assumes "host_ok h" "transport_ref t < allocated h" "mcp_ref t < allocated h"
  shows "host_ok (handleRequest randomUUID initializes h t req)"
  using assms
  by (auto simp: host_ok_def handleRequest_def ran_def split: if_splits)

lemma host_ok_allocate:
  "host_ok h \<Longrightarrow> host_ok (h\<lparr>allocated := Suc (Suc (allocated h))\<rparr>)"
  by (fastforce simp: host_ok_def)

lemma fresh_transport:
  assumes "host_ok h"
  shows "\<lparr>transport_ref = Suc (allocated h), mcp_ref = allocated h\<rparr> \<notin> ran (transports h)"
    and "allocated h \<notin> mcp_ref ` ran (transports h)"
    and "Suc (allocated h) \<notin> transport_ref ` ran (transports h)"
  using assms by (fastforce simp: host_ok_def)+

text \<open>
  C4, as amended. A request whose session identifier is an own key of the table is handled by
  the transport stored there, and no object is created. A request without identifier, with the
  empty one, or with one that is neither in the table nor the name of a property that objects
  inherit, is handled by a new transport bound to a new server, both distinct from every
  object of the table; the new transport is recorded, under the identifier the generator
  returned, when the transport reports the session initialized while it handles the request,
  and the table is left as it was when it does not. When the first request without identifier
  initializes its session, it is recorded under the returned identifier, and a second request
  that carries that identifier is handled by the same transport, no object being created.
\<close>

theorem C4_session_resolution:
  assumes "host_ok h"
  shows "(sid \<noteq> [] \<and> transports h sid = Some t \<longrightarrow>
            (\<exists>h'. post_mcp randomUUID initializes h (Some sid) req = Inr (t, h')
                 \<and> allocated h' = allocated h
                 \<and> transports h' sid = Some t))
       \<and> (sessionId = None \<or> sessionId = Some []
            \<or> (\<exists>k. sessionId = Some k \<and> transports h k = None \<and> k \<notin> set object_prototype_keys) \<longrightarrow>
            (\<exists>t' h'. post_mcp randomUUID initializes h sessionId req = Inr (t', h')
                 \<and> transport_ref t' \<notin> transport_ref ` ran (transports h)
                 \<and> mcp_ref t' \<notin> mcp_ref ` ran (transports h)
                 \<and> allocated h' = Suc (Suc (allocated h))
                 \<and> host_ok h'
                 \<and> (initializes (h\<lparr>allocated := Suc (Suc (allocated h))\<rparr>) t' req \<longrightarrow>
                      uuids h' = Suc (uuids h)
                      \<and> transports h' = (transports h)(randomUUID (uuids h) \<mapsto> t'))
                 \<and> (\<not> initializes (h\<lparr>allocated := Suc (Suc (allocated h))\<rparr>) t' req \<longrightarrow>
                      uuids h' = uuids h \<and> transports h' = transports h)))
       \<and> (initializes (h\<lparr>allocated := Suc (Suc (allocated h))\<rparr>)
              \<lparr>transport_ref = Suc (allocated h), mcp_ref = allocated h\<rparr> req
            \<and> randomUUID (uuids h) \<noteq> [] \<longrightarrow>
            (\<exists>t1 h1 h2. post_mcp randomUUID initializes h None req = Inr (t1, h1)
                 \<and> transports h1 (randomUUID (uuids h)) = Some t1
                 \<and> post_mcp randomUUID initializes h1 (Some (randomUUID (uuids h))) req2
                     = Inr (t1, h2)
                 \<and> allocated h2 = allocated h1))"
proof -
  let ?t = "\<lparr>transport_ref = Suc (allocated h), mcp_ref = allocated h\<rparr>"
  let ?h = "h\<lparr>allocated := Suc (Suc (allocated h))\<rparr>"
  let ?h1 = "handleRequest randomUUID initializes ?h ?t req"
  have known: "\<exists>h'. post_mcp randomUUID initializes h (Some sid) req = Inr (t, h')
                 \<and> allocated h' = allocated h \<and> transports h' sid = Some t"
    if "sid \<noteq> []" "transports h sid = Some t"
    using that by (simp add: post_mcp_known handleRequest_transports)
  have new: "\<exists>t' h'. post_mcp randomUUID initializes h sessionId req = Inr (t', h')
                 \<and> transport_ref t' \<notin> transport_ref ` ran (transports h)
                 \<and> mcp_ref t' \<notin> mcp_ref ` ran (transports h)
                 \<and> allocated h' = Suc (Suc (allocated h))
                 \<and> host_ok h'
                 \<and> (initializes (h\<lparr>allocated := Suc (Suc (allocated h))\<rparr>) t' req \<longrightarrow>
                      uuids h' = Suc (uuids h)
                      \<and> transports h' = (transports h)(randomUUID (uuids h) \<mapsto> t'))
                 \<and> (\<not> initializes (h\<lparr>allocated := Suc (Suc (allocated h))\<rparr>) t' req \<longrightarrow>
                      uuids h' = uuids h \<and> transports h' = transports h)"
    if c: "sessionId = None \<or> sessionId = Some []
            \<or> (\<exists>k. sessionId = Some k \<and> transports h k = None \<and> k \<notin> set object_prototype_keys)"
  proof -
    have ok: "host_ok ?h1"
      using assms by (intro host_ok_handleRequest host_ok_allocate) simp_all
    have yes: "uuids ?h1 = Suc (uuids h)
          \<and> transports ?h1 = (transports h)(randomUUID (uuids h) \<mapsto> ?t)"
      if "initializes ?h ?t req"
      using that by (simp add: handleRequest_def)
    have no: "uuids ?h1 = uuids h \<and> transports ?h1 = transports h"
      if "\<not> initializes ?h ?t req"
      using that by (simp add: handleRequest_def)
    from post_mcp_new [OF c, of randomUUID initializes req] fresh_transport [OF assms] ok yes no
    show ?thesis
      by simp
  qed
  have again: "\<exists>t1 h1 h2. post_mcp randomUUID initializes h None req = Inr (t1, h1)
                 \<and> transports h1 (randomUUID (uuids h)) = Some t1
                 \<and> post_mcp randomUUID initializes h1 (Some (randomUUID (uuids h))) req2
                     = Inr (t1, h2)
                 \<and> allocated h2 = allocated h1"
    if i: "initializes ?h ?t req" and ne: "randomUUID (uuids h) \<noteq> []"
  proof -
    have first: "post_mcp randomUUID initializes h None req = Inr (?t, ?h1)"
      by (simp add: post_mcp_new)
    from i have stored: "transports ?h1 (randomUUID (uuids h)) = Some ?t"
      by (simp add: handleRequest_def)
    from post_mcp_known [OF ne stored, of randomUUID initializes req2]
    have second: "post_mcp randomUUID initializes ?h1 (Some (randomUUID (uuids h))) req2
        = Inr (?t, handleRequest randomUUID initializes ?h1 ?t req2)" .
    from first stored second show ?thesis
      by (intro exI [of _ ?t] exI [of _ ?h1]
            exI [of _ "handleRequest randomUUID initializes ?h1 ?t req2"]) simp
  qed
  from known new again show ?thesis
    by blast
qed

text \<open>
  Witness for C4: on an empty table a request without identifier that initializes its session
  is recorded under the first identifier; the request that carries it is handled by the same
  transport.
\<close>

theorem C4_session_resolution_witness:
  "host_ok \<lparr>transports = Map.empty, allocated = 0, uuids = 0\<rparr>
   \<and> post_mcp (\<lambda>k. replicate (Suc k) 0x61) (\<lambda>h t (req::bool). req)
        \<lparr>transports = Map.empty, allocated = 0, uuids = 0\<rparr> None True
       = Inr (\<lparr>transport_ref = 1, mcp_ref = 0\<rparr>,
              \<lparr>transports = [[0x61] \<mapsto> \<lparr>transport_ref = 1, mcp_ref = 0\<rparr>], allocated = 2, uuids = 1\<rparr>)
   \<and> (\<exists>h2. post_mcp (\<lambda>k. replicate (Suc k) 0x61) (\<lambda>h t (req::bool). req)
              \<lparr>transports = [[0x61] \<mapsto> \<lparr>transport_ref = 1, mcp_ref = 0\<rparr>], allocated = 2, uuids = 1\<rparr>
              (Some [0x61]) False
            = Inr (\<lparr>transport_ref = 1, mcp_ref = 0\<rparr>, h2)
          \<and> allocated h2 = 2)"
proof -
  let ?R = "\<lambda>k::nat. replicate (Suc k) (0x61 :: 16 word)"
  let ?I = "\<lambda>(h::host) (t::transport) (req::bool). req"
  let ?h0 = "\<lparr>transports = Map.empty, allocated = 0, uuids = 0\<rparr>"
  let ?t1 = "\<lparr>transport_ref = 1, mcp_ref = 0\<rparr>"
  let ?h1 = "\<lparr>transports = [[0x61] \<mapsto> ?t1], allocated = 2, uuids = 1\<rparr>"
  have ok: "host_ok ?h0"
    by (simp add: host_ok_def)
  have first: "post_mcp ?R ?I ?h0 None True = Inr (?t1, ?h1)"
    by (simp add: post_mcp_def handleRequest_def Let_def numeral_2_eq_2)
  have pre: "?I (?h0\<lparr>allocated := Suc (Suc (allocated ?h0))\<rparr>)
        \<lparr>transport_ref = Suc (allocated ?h0), mcp_ref = allocated ?h0\<rparr> True
      \<and> ?R (uuids ?h0) \<noteq> []"
    by simp
  from C4_session_resolution
      [OF ok, where randomUUID = ?R and initializes = ?I and req = True and ?req2.0 = False] pre
  obtain t1 h1 h2 where again: "post_mcp ?R ?I ?h0 None True = Inr (t1, h1)"
      "post_mcp ?R ?I h1 (Some (?R (uuids ?h0))) False = Inr (t1, h2)"
      "allocated h2 = allocated h1"
    by blast
  from again(1) first have "t1 = ?t1" "h1 = ?h1"
    by simp_all
  with again(2,3) have "post_mcp ?R ?I ?h1 (Some [0x61]) False = Inr (?t1, h2) \<and> allocated h2 = 2"
    by simp
  with ok first show ?thesis
    by blast
qed

text \<open>
  Counterexample to C4 as stated: a request with an unknown identifier that does not
  initialize a session gets a new transport and a new server, but nothing is recorded; the same
  request again gets yet another transport and server.
\<close>

theorem C4_counterexample:
  "post_mcp (\<lambda>k. replicate (Suc k) 0x61) (\<lambda>h t (req::bool). req)
      \<lparr>transports = Map.empty, allocated = 0, uuids = 0\<rparr> (Some (lit ''abc'')) False
     = Inr (\<lparr>transport_ref = 1, mcp_ref = 0\<rparr>, \<lparr>transports = Map.empty, allocated = 2, uuids = 0\<rparr>)
   \<and> post_mcp (\<lambda>k. replicate (Suc k) 0x61) (\<lambda>h t (req::bool). req)
      \<lparr>transports = Map.empty, allocated = 2, uuids = 0\<rparr> (Some (lit ''abc'')) False
     = Inr (\<lparr>transport_ref = 3, mcp_ref = 2\<rparr>, \<lparr>transports = Map.empty, allocated = 4, uuids = 0\<rparr>)"
  by (simp add: post_mcp_def get_property_def object_prototype_keys_def lit_def handleRequest_def)

text \<open>
  An identifier that names an inherited property, such as \<^verbatim>\<open>constructor\<close>, is truthy in the
  table without being a transport, and calling \<^verbatim>\<open>handleRequest\<close> on it raises.
\<close>

lemma inherited_key_raises:
  "post_mcp randomUUID initializes \<lparr>transports = Map.empty, allocated = 0, uuids = 0\<rparr>
      (Some (lit ''constructor'')) req = Inl TypeError"
  by (simp add: post_mcp_def get_property_def object_prototype_keys_def lit_def)

end
